theory Spec2Isabelle
  imports Main
begin

section \<open>Data model (shared/schema.ts)\<close>

text \<open>
  The tables of \<^verbatim>\<open>shared/schema.ts\<close>, one record per row type. Columns keep their
  names behind a prefix for the table (\<open>u_\<close>, \<open>e_\<close>, \<open>q_\<close>, \<open>s_\<close>, \<open>a_\<close>), since several
  tables have an \<open>id\<close>, a \<open>status\<close> or a \<open>createdAt\<close> column. A nullable column is an
  \<open>option\<close>. A timestamp is the number of milliseconds since the epoch, as
  \<^verbatim>\<open>Date.getTime()\<close> reads it. An \<^verbatim>\<open>integer\<close> column and a JavaScript number holding
  it are modelled as \<open>int\<close>.
\<close>

type_synonym timestamp = int

datatype role = teacher | student

datatype exam_status = upcoming | active | exam_completed | draft

datatype difficulty = easy | medium | hard

datatype submission_status = in_progress | completed

record user =
  u_id :: int
  u_studentId :: "string option"
  u_fullName :: string
  u_username :: string
  u_password :: string
  u_email :: "string option"
  u_role :: role
  u_class :: "string option"
  u_createdAt :: "timestamp option"

record exam =
  e_id :: int
  e_title :: string
  e_subject :: string
  e_class :: string
  e_topic :: "string option"
  e_startTime :: timestamp
  e_endTime :: timestamp
  e_duration :: int
  e_status :: exam_status
  e_createdById :: int
  e_createdAt :: "timestamp option"

record question =
  q_id :: int
  q_examId :: int
  q_content :: string
  q_options :: "(string \<times> string) list"
  q_correctAnswer :: string
  q_points :: int
  q_difficulty :: "difficulty option"
  q_topic :: "string option"
  q_createdAt :: "timestamp option"

record submission =
  s_id :: int
  s_examId :: int
  s_userId :: int
  s_startTime :: timestamp
  s_endTime :: "timestamp option"
  s_score :: "int option"
  s_status :: submission_status
  s_createdAt :: "timestamp option"

record answer_row =
  a_id :: int
  a_submissionId :: int
  a_questionId :: int
  a_answer :: "string option"
  a_isCorrect :: "bool option"
  a_createdAt :: "timestamp option"

text \<open>
  \<^verbatim>\<open>InsertSubmission\<close> and \<^verbatim>\<open>InsertAnswer\<close>: the row without \<open>id\<close> and \<open>createdAt\<close>
  (\<^verbatim>\<open>createInsertSchema(...).omit({id, createdAt})\<close>). A column with a default or a
  nullable column may be left out of the insert; the submit route leaves out
  \<open>endTime\<close> and \<open>score\<close>, which the table then stores as null.
\<close>

record insert_submission =
  is_examId :: int
  is_userId :: int
  is_startTime :: timestamp
  is_endTime :: "timestamp option"
  is_score :: "int option"
  is_status :: submission_status

record insert_answer =
  ia_submissionId :: int
  ia_questionId :: int
  ia_answer :: "string option"
  ia_isCorrect :: "bool option"

text \<open>
  \<^verbatim>\<open>Partial<Submission>\<close>, the argument of \<^verbatim>\<open>updateSubmission\<close>: every column is
  optional, \<open>None\<close> is a column the update does not mention.
\<close>

record submission_patch =
  p_id :: "int option"
  p_examId :: "int option"
  p_userId :: "int option"
  p_startTime :: "timestamp option"
  p_endTime :: "timestamp option option"
  p_score :: "int option option"
  p_status :: "submission_status option"
  p_createdAt :: "timestamp option option"

section \<open>Storage (server/storage.ts)\<close>

text \<open>
  The database is a record of its tables, each a list of rows in the order a
  \<^verbatim>\<open>select\<close> without \<^verbatim>\<open>orderBy\<close> returns them, and of the next value of the two
  \<^verbatim>\<open>serial\<close> sequences the submit route draws from. Every storage call is modelled
  as succeeding: a call that the database would refuse (and the route would answer
  with status 500 from its \<^verbatim>\<open>catch\<close>) is outside the model.
\<close>

record store =
  users :: "user list"
  exams :: "exam list"
  questions :: "question list"
  submissions :: "submission list"
  answers :: "answer_row list"
  submissions_id_seq :: int
  answers_id_seq :: int

definition getUser :: "store \<Rightarrow> int \<Rightarrow> user option" where
  "getUser st i = find (\<lambda>u. u_id u = i) (users st)"

definition getStudentsByClass :: "store \<Rightarrow> string \<Rightarrow> user list" where
  "getStudentsByClass st className =
     filter (\<lambda>u. u_role u = student \<and> u_class u = Some className) (users st)"

definition getAllClasses :: "store \<Rightarrow> string list" where
  "getAllClasses st =
     remdups (map (\<lambda>u. the (u_class u))
       (filter (\<lambda>u. u_role u = student \<and> u_class u \<noteq> None) (users st)))"

definition getExam :: "store \<Rightarrow> int \<Rightarrow> exam option" where
  "getExam st i = find (\<lambda>e. e_id e = i) (exams st)"

definition getQuestionsByExam :: "store \<Rightarrow> int \<Rightarrow> question list" where
  "getQuestionsByExam st examId = filter (\<lambda>q. q_examId q = examId) (questions st)"

definition createSubmission :: "timestamp \<Rightarrow> insert_submission \<Rightarrow> store \<Rightarrow> submission \<times> store" where
  "createSubmission now d st =
     (let row = \<lparr> s_id = submissions_id_seq st,
                  s_examId = is_examId d,
                  s_userId = is_userId d,
                  s_startTime = is_startTime d,
                  s_endTime = is_endTime d,
                  s_score = is_score d,
                  s_status = is_status d,
                  s_createdAt = Some now \<rparr>
      in (row, st\<lparr> submissions := submissions st @ [row],
                   submissions_id_seq := submissions_id_seq st + 1 \<rparr>))"

definition getSubmission :: "store \<Rightarrow> int \<Rightarrow> submission option" where
  "getSubmission st i = find (\<lambda>s. s_id s = i) (submissions st)"

definition apply_patch :: "submission_patch \<Rightarrow> submission \<Rightarrow> submission" where
  "apply_patch p s =
     \<lparr> s_id = (case p_id p of None \<Rightarrow> s_id s | Some v \<Rightarrow> v),
       s_examId = (case p_examId p of None \<Rightarrow> s_examId s | Some v \<Rightarrow> v),
       s_userId = (case p_userId p of None \<Rightarrow> s_userId s | Some v \<Rightarrow> v),
       s_startTime = (case p_startTime p of None \<Rightarrow> s_startTime s | Some v \<Rightarrow> v),
       s_endTime = (case p_endTime p of None \<Rightarrow> s_endTime s | Some v \<Rightarrow> v),
       s_score = (case p_score p of None \<Rightarrow> s_score s | Some v \<Rightarrow> v),
       s_status = (case p_status p of None \<Rightarrow> s_status s | Some v \<Rightarrow> v),
       s_createdAt = (case p_createdAt p of None \<Rightarrow> s_createdAt s | Some v \<Rightarrow> v) \<rparr>"

text \<open>
  \<^verbatim>\<open>update(submissions).set(data).where(eq(submissions.id, id)).returning()\<close>: every
  row with that id is rewritten, and the first rewritten row is returned
  (\<^verbatim>\<open>undefined\<close>, here \<open>None\<close>, when no row has the id).
\<close>

definition updateSubmission :: "int \<Rightarrow> submission_patch \<Rightarrow> store \<Rightarrow> submission option \<times> store" where
  "updateSubmission i p st =
     (case filter (\<lambda>s. s_id s = i) (submissions st) of
        [] \<Rightarrow> None
      | s # _ \<Rightarrow> Some (apply_patch p s),
      st\<lparr> submissions := map (\<lambda>s. if s_id s = i then apply_patch p s else s) (submissions st) \<rparr>)"

definition getSubmissionsByExam :: "store \<Rightarrow> int \<Rightarrow> submission list" where
  "getSubmissionsByExam st examId = filter (\<lambda>s. s_examId s = examId) (submissions st)"

definition saveAnswer :: "timestamp \<Rightarrow> insert_answer \<Rightarrow> store \<Rightarrow> answer_row \<times> store" where
  "saveAnswer now d st =
     (let row = \<lparr> a_id = answers_id_seq st,
                  a_submissionId = ia_submissionId d,
                  a_questionId = ia_questionId d,
                  a_answer = ia_answer d,
                  a_isCorrect = ia_isCorrect d,
                  a_createdAt = Some now \<rparr>
      in (row, st\<lparr> answers := answers st @ [row],
                   answers_id_seq := answers_id_seq st + 1 \<rparr>))"

definition getAnswersBySubmission :: "store \<Rightarrow> int \<Rightarrow> answer_row list" where
  "getAnswersBySubmission st submissionId =
     filter (\<lambda>a. a_submissionId a = submissionId) (answers st)"

section \<open>The submit route (server/routes.ts, POST /api/exams/:examId/submit)\<close>

text \<open>
  A request carries the session's user (\<open>None\<close> when \<^verbatim>\<open>req.isAuthenticated()\<close> is
  false), the exam id parsed from the path, and the \<^verbatim>\<open>answers\<close> field of the body,
  which is either no array at all or an array of \<^verbatim>\<open>{questionId, answer}\<close> entries
  (\<open>answer = None\<close> is an entry whose answer is null or missing). All readings of the
  clock during one request are the one instant \<open>now\<close>.
\<close>

record answerData =
  questionId :: int
  answer :: "string option"

datatype body_answers = NotArray | Array "answerData list"

record submit_request =
  req_user :: "user option"
  req_examId :: int
  req_answers :: body_answers

datatype submit_body =
    Message string
  | QuestionIdNotFound int
  | SubmissionJson "submission option"

record 'b response =
  status :: nat
  body :: 'b

text \<open>
  The grading loop of the route. \<open>Inl qid\<close> is the early return of the loop at an
  entry whose \<open>questionId\<close> is not a question of the exam, \<open>Inr score\<close> the score when
  the loop runs to its end. The store comes back with the answer rows written so far.
\<close>

fun grade_loop ::
  "timestamp \<Rightarrow> question list \<Rightarrow> int \<Rightarrow> answerData list \<Rightarrow> int \<Rightarrow> store \<Rightarrow> (int + int) \<times> store"
where
  "grade_loop now qs sid [] score st = (Inr score, st)"
| "grade_loop now qs sid (answerData # rest) score st =
     (case find (\<lambda>q. q_id q = questionId answerData) qs of
        None \<Rightarrow> (Inl (questionId answerData), st)
      | Some q \<Rightarrow>
          (let isCorrect = (Some (q_correctAnswer q) = answer answerData);
               st' = snd (saveAnswer now
                        \<lparr> ia_submissionId = sid,
                          ia_questionId = questionId answerData,
                          ia_answer = answer answerData,
                          ia_isCorrect = Some isCorrect \<rparr> st)
           in grade_loop now qs sid rest (if isCorrect then score + q_points q else score) st'))"

definition grade_and_finish ::
  "timestamp \<Rightarrow> question list \<Rightarrow> answerData list \<Rightarrow> submission \<Rightarrow> store \<Rightarrow>
     submit_body response \<times> store"
where
  "grade_and_finish now qs as sub st =
     (case grade_loop now qs (s_id sub) as 0 st of
        (Inl qid, st') \<Rightarrow> (\<lparr> status = 400, body = QuestionIdNotFound qid \<rparr>, st')
      | (Inr score, st') \<Rightarrow>
          (let (updatedSubmission, st'') =
                 updateSubmission (s_id sub)
                   \<lparr> p_id = None, p_examId = None, p_userId = None, p_startTime = None,
                     p_endTime = Some (Some now), p_score = Some (Some score),
                     p_status = Some completed, p_createdAt = None \<rparr> st'
           in (\<lparr> status = 200, body = SubmissionJson updatedSubmission \<rparr>, st'')))"

definition submit_exam :: "timestamp \<Rightarrow> store \<Rightarrow> submit_request \<Rightarrow> submit_body response \<times> store" where
  "submit_exam now st req =
     (case req_user req of
        None \<Rightarrow> (\<lparr> status = 403, body = Message ''Access denied'' \<rparr>, st)
      | Some u \<Rightarrow>
          if u_role u \<noteq> student then (\<lparr> status = 403, body = Message ''Access denied'' \<rparr>, st)
          else
            (case getExam st (req_examId req) of
               None \<Rightarrow> (\<lparr> status = 404, body = Message ''Exam not found'' \<rparr>, st)
             | Some ex \<Rightarrow>
                 if Some (e_class ex) \<noteq> u_class u
                 then (\<lparr> status = 403, body = Message ''Access denied'' \<rparr>, st)
                 else
                   (let existingSubmissions = getSubmissionsByExam st (req_examId req);
                        studentSubmission = find (\<lambda>s. s_userId s = u_id u) existingSubmissions
                    in if (case studentSubmission of None \<Rightarrow> False
                                                   | Some s \<Rightarrow> s_status s = completed)
                       then (\<lparr> status = 400, body = Message ''Exam already submitted'' \<rparr>, st)
                       else
                         (let qs = getQuestionsByExam st (req_examId req)
                          in case req_answers req of
                               NotArray \<Rightarrow> (\<lparr> status = 400, body = Message ''No answers provided'' \<rparr>, st)
                             | Array as \<Rightarrow>
                                 if as = []
                                 then (\<lparr> status = 400, body = Message ''No answers provided'' \<rparr>, st)
                                 else
                                   (case studentSubmission of
                                      Some sub \<Rightarrow> grade_and_finish now qs as sub st
                                    | None \<Rightarrow>
                                        (let (sub, st1) =
                                               createSubmission now
                                                 \<lparr> is_examId = req_examId req,
                                                   is_userId = u_id u,
                                                   is_startTime = now,
                                                   is_endTime = None,
                                                   is_score = None,
                                                   is_status = in_progress \<rparr> st
                                         in grade_and_finish now qs as sub st1))))))"

section \<open>What grading is specified to compute\<close>

text \<open>
  The specification's words, as functions of the exam's questions and the submitted
  list: an entry is known when its \<open>questionId\<close> is the id of a question of the exam;
  it is correct when its chosen label equals that question's stored correct label; the
  expected score is the sum of the points of the questions of the correct entries; the
  expected answer rows are one row per entry, in list order, up to the first unknown
  entry.
\<close>

definition is_correct_entry :: "question list \<Rightarrow> answerData \<Rightarrow> bool" where
  "is_correct_entry qs a =
     (case find (\<lambda>q. q_id q = questionId a) qs of
        None \<Rightarrow> False
      | Some q \<Rightarrow> answer a = Some (q_correctAnswer q))"

definition entry_points :: "question list \<Rightarrow> answerData \<Rightarrow> int" where
  "entry_points qs a =
     (case find (\<lambda>q. q_id q = questionId a) qs of None \<Rightarrow> 0 | Some q \<Rightarrow> q_points q)"

definition expected_score :: "question list \<Rightarrow> answerData list \<Rightarrow> int" where
  "expected_score qs as = sum_list (map (entry_points qs) (filter (is_correct_entry qs) as))"

definition known_question :: "question list \<Rightarrow> answerData \<Rightarrow> bool" where
  "known_question qs a = (find (\<lambda>q. q_id q = questionId a) qs \<noteq> None)"

fun expected_rows ::
  "timestamp \<Rightarrow> question list \<Rightarrow> int \<Rightarrow> int \<Rightarrow> answerData list \<Rightarrow> answer_row list"
where
  "expected_rows now qs sid n [] = []"
| "expected_rows now qs sid n (a # as) =
     (if known_question qs a
      then \<lparr> a_id = n, a_submissionId = sid, a_questionId = questionId a,
             a_answer = answer a, a_isCorrect = Some (is_correct_entry qs a),
             a_createdAt = Some now \<rparr> # expected_rows now qs sid (n + 1) as
      else [])"

section \<open>The route's guards and the submission it grades\<close>

text \<open>
  The guards of the route in the order the route checks them: \<open>submit_rejection\<close> is
  the response of the first guard that fails, \<open>None\<close> when the request reaches the
  grading loop. \<open>graded_submission\<close> is the submission the loop then writes to, the
  student's existing one or the row the route has just created, and
  \<open>store_at_grading\<close> the store at that moment.
\<close>

definition studentSubmission_of :: "store \<Rightarrow> submit_request \<Rightarrow> submission option" where
  "studentSubmission_of st req =
     (case req_user req of
        None \<Rightarrow> None
      | Some u \<Rightarrow> find (\<lambda>s. s_userId s = u_id u) (getSubmissionsByExam st (req_examId req)))"

definition submit_rejection :: "store \<Rightarrow> submit_request \<Rightarrow> submit_body response option" where
  "submit_rejection st req =
     (case req_user req of
        None \<Rightarrow> Some \<lparr> status = 403, body = Message ''Access denied'' \<rparr>
      | Some u \<Rightarrow>
          if u_role u \<noteq> student then Some \<lparr> status = 403, body = Message ''Access denied'' \<rparr>
          else
            (case getExam st (req_examId req) of
               None \<Rightarrow> Some \<lparr> status = 404, body = Message ''Exam not found'' \<rparr>
             | Some ex \<Rightarrow>
                 if Some (e_class ex) \<noteq> u_class u
                 then Some \<lparr> status = 403, body = Message ''Access denied'' \<rparr>
                 else if (case studentSubmission_of st req of
                            None \<Rightarrow> False | Some s \<Rightarrow> s_status s = completed)
                 then Some \<lparr> status = 400, body = Message ''Exam already submitted'' \<rparr>
                 else if req_answers req = NotArray \<or> req_answers req = Array []
                 then Some \<lparr> status = 400, body = Message ''No answers provided'' \<rparr>
                 else None))"

definition new_submission :: "timestamp \<Rightarrow> store \<Rightarrow> submit_request \<Rightarrow> submission" where
  "new_submission now st req =
     \<lparr> s_id = submissions_id_seq st, s_examId = req_examId req,
       s_userId = u_id (the (req_user req)), s_startTime = now, s_endTime = None,
       s_score = None, s_status = in_progress, s_createdAt = Some now \<rparr>"

definition graded_submission :: "timestamp \<Rightarrow> store \<Rightarrow> submit_request \<Rightarrow> submission" where
  "graded_submission now st req =
     (case studentSubmission_of st req of
        Some sub \<Rightarrow> sub
      | None \<Rightarrow> new_submission now st req)"

definition store_at_grading :: "timestamp \<Rightarrow> store \<Rightarrow> submit_request \<Rightarrow> store" where
  "store_at_grading now st req =
     (case studentSubmission_of st req of
        Some sub \<Rightarrow> st
      | None \<Rightarrow> st\<lparr> submissions := submissions st @ [new_submission now st req],
                    submissions_id_seq := submissions_id_seq st + 1 \<rparr>)"

text \<open>
  The key of an answer row is its (submission, question) pair; a table has one row per
  question when no two of its rows have the same key.
\<close>

definition answer_key :: "answer_row \<Rightarrow> int \<times> int" where
  "answer_key r = (a_submissionId r, a_questionId r)"

definition one_row_per_question :: "answer_row list \<Rightarrow> bool" where
  "one_row_per_question rows = distinct (map answer_key rows)"

section \<open>A concrete exam\<close>

text \<open>
  The scenario of the specification: an exam with three questions whose correct labels
  are A, B, C and whose points are 1, 2, 3; a student of the exam's class answers
  A, B, D.
\<close>

definition demo_teacher :: user where
  "demo_teacher =
     \<lparr> u_id = 1, u_studentId = None, u_fullName = ''Ms T'', u_username = ''teacher'',
       u_password = ''hash-t'', u_email = Some ''t@school'', u_role = teacher,
       u_class = None, u_createdAt = Some 0 \<rparr>"

definition demo_student :: user where
  "demo_student =
     \<lparr> u_id = 2, u_studentId = Some ''S001'', u_fullName = ''Student One'',
       u_username = ''s001'', u_password = ''hash-s'', u_email = None, u_role = student,
       u_class = Some ''10A'', u_createdAt = Some 0 \<rparr>"

definition demo_exam :: exam where
  "demo_exam =
     \<lparr> e_id = 1, e_title = ''Algebra'', e_subject = ''mathematics'', e_class = ''10A'',
       e_topic = None, e_startTime = 0, e_endTime = 65000, e_duration = 1,
       e_status = active, e_createdById = 1, e_createdAt = Some 0 \<rparr>"

definition demo_question :: "int \<Rightarrow> string \<Rightarrow> int \<Rightarrow> question" where
  "demo_question i correct pts =
     \<lparr> q_id = i, q_examId = 1, q_content = ''?'',
       q_options = [(''A'', ''a''), (''B'', ''b''), (''C'', ''c''), (''D'', ''d'')],
       q_correctAnswer = correct, q_points = pts, q_difficulty = Some medium,
       q_topic = None, q_createdAt = Some 0 \<rparr>"

definition demo_store :: store where
  "demo_store =
     \<lparr> users = [demo_teacher, demo_student],
       exams = [demo_exam],
       questions = [demo_question 1 ''A'' 1, demo_question 2 ''B'' 2, demo_question 3 ''C'' 3],
       submissions = [],
       answers = [],
       submissions_id_seq = 1,
       answers_id_seq = 1 \<rparr>"

definition demo_request :: submit_request where
  "demo_request =
     \<lparr> req_user = Some demo_student, req_examId = 1,
       req_answers = Array [\<lparr> questionId = 1, answer = Some ''A'' \<rparr>,
                            \<lparr> questionId = 2, answer = Some ''B'' \<rparr>,
                            \<lparr> questionId = 3, answer = Some ''D'' \<rparr>] \<rparr>"

definition demo_student2 :: user where
  "demo_student2 =
     \<lparr> u_id = 3, u_studentId = Some ''S002'', u_fullName = ''Student Two'',
       u_username = ''s002'', u_password = ''hash-s2'', u_email = None, u_role = student,
       u_class = Some ''10A'', u_createdAt = Some 0 \<rparr>"

definition demo_submission :: "int \<Rightarrow> int \<Rightarrow> submission_status \<Rightarrow> int option \<Rightarrow> submission" where
  "demo_submission i uid st sc =
     \<lparr> s_id = i, s_examId = 1, s_userId = uid, s_startTime = 100,
       s_endTime = (if st = completed then Some 200 else None), s_score = sc,
       s_status = st, s_createdAt = Some 100 \<rparr>"

definition resumed_store :: store where
  "resumed_store =
     demo_store
       \<lparr> users := [demo_teacher, demo_student, demo_student2],
         submissions := [demo_submission 1 3 completed (Some 1),
                         demo_submission 2 2 in_progress None],
         answers := [\<lparr> a_id = 1, a_submissionId = 1, a_questionId = 1, a_answer = Some ''A'',
                       a_isCorrect = Some True, a_createdAt = Some 200 \<rparr>],
         submissions_id_seq := 3,
         answers_id_seq := 2 \<rparr>"

definition raced_store :: store where
  "raced_store =
     demo_store
       \<lparr> submissions := [demo_submission 1 2 in_progress None,
                         demo_submission 2 2 completed (Some 3)],
         submissions_id_seq := 3 \<rparr>"

definition empty_request :: submit_request where
  "empty_request = \<lparr> req_user = Some demo_student, req_examId = 1, req_answers = Array [] \<rparr>"

definition unknown_request :: submit_request where
  "unknown_request =
     \<lparr> req_user = Some demo_student, req_examId = 1,
       req_answers = Array [\<lparr> questionId = 1, answer = Some ''A'' \<rparr>,
                            \<lparr> questionId = 99, answer = Some ''B'' \<rparr>,
                            \<lparr> questionId = 2, answer = Some ''B'' \<rparr>] \<rparr>"

definition repeated_request :: submit_request where
  "repeated_request =
     \<lparr> req_user = Some demo_student, req_examId = 1,
       req_answers = Array [\<lparr> questionId = 1, answer = Some ''A'' \<rparr>,
                            \<lparr> questionId = 1, answer = Some ''A'' \<rparr>] \<rparr>"

section \<open>Unfolding bundles\<close>

lemmas demo_defs =
  demo_teacher_def demo_student_def demo_exam_def demo_question_def demo_store_def
  demo_request_def

lemmas storage_defs =
  getUser_def getStudentsByClass_def getAllClasses_def getExam_def getQuestionsByExam_def
  createSubmission_def getSubmission_def apply_patch_def updateSubmission_def
  getSubmissionsByExam_def saveAnswer_def getAnswersBySubmission_def

lemmas submit_defs = submit_exam_def grade_and_finish_def Let_def

lemmas demo2_defs =
  demo_student2_def demo_submission_def resumed_store_def raced_store_def empty_request_def
  unknown_request_def repeated_request_def

lemmas spec_defs =
  is_correct_entry_def entry_points_def expected_score_def known_question_def
  studentSubmission_of_def submit_rejection_def new_submission_def graded_submission_def
  store_at_grading_def answer_key_def one_row_per_question_def

section \<open>Properties of the grading loop\<close>

lemma grade_loop_frame:
  "grade_loop now qs sid as sc st = (r, st') \<Longrightarrow>
     users st' = users st \<and> exams st' = exams st \<and> questions st' = questions st \<and>
     submissions st' = submissions st \<and> submissions_id_seq st' = submissions_id_seq st"
  by (induction as arbitrary: sc st)
     (auto simp: saveAnswer_def Let_def split: option.splits)

lemma grade_loop_answers:
  "answers (snd (grade_loop now qs sid as sc st)) =
     answers st @ expected_rows now qs sid (answers_id_seq st) as"
  by (induction as arbitrary: sc st)
     (auto simp: saveAnswer_def Let_def known_question_def is_correct_entry_def split: option.splits)

lemma grade_loop_seq:
  "answers_id_seq (snd (grade_loop now qs sid as sc st)) =
     answers_id_seq st + int (length (expected_rows now qs sid (answers_id_seq st) as))"
  by (induction as arbitrary: sc st)
     (auto simp: saveAnswer_def Let_def known_question_def is_correct_entry_def split: option.splits)

lemma grade_loop_Inr:
  "fst (grade_loop now qs sid as sc st) = Inr tot \<longleftrightarrow>
     (\<forall>a \<in> set as. known_question qs a) \<and> tot = sc + expected_score qs as"
  by (induction as arbitrary: sc st)
     (auto simp: saveAnswer_def Let_def known_question_def is_correct_entry_def
                 entry_points_def expected_score_def split: option.splits)

lemma grade_loop_Inl:
  "fst (grade_loop now qs sid as sc st) = Inl qid \<longleftrightarrow>
     (\<exists>a. find (\<lambda>a. \<not> known_question qs a) as = Some a \<and> qid = questionId a)"
  by (induction as arbitrary: sc st)
     (auto simp: saveAnswer_def Let_def known_question_def split: option.splits)

lemma apply_finish_patch:
  "apply_patch \<lparr> p_id = None, p_examId = None, p_userId = None, p_startTime = None,
                 p_endTime = Some (Some now), p_score = Some (Some sc),
                 p_status = Some completed, p_createdAt = None \<rparr> s =
     s\<lparr> s_endTime := Some now, s_score := Some sc, s_status := completed \<rparr>"
  by (simp add: apply_patch_def)

lemma grade_and_finish_unknown:
  assumes "\<not> (\<forall>a \<in> set as. known_question qs a)"
  shows "\<exists>a. find (\<lambda>a. \<not> known_question qs a) as = Some a \<and>
           fst (grade_and_finish now qs as sub st) = \<lparr> status = 400, body = QuestionIdNotFound (questionId a) \<rparr> \<and>
           snd (grade_and_finish now qs as sub st) =
             st\<lparr> answers := answers st @ expected_rows now qs (s_id sub) (answers_id_seq st) as,
                 answers_id_seq := answers_id_seq st +
                    int (length (expected_rows now qs (s_id sub) (answers_id_seq st) as)) \<rparr>"
proof -
  obtain r st' where g: "grade_loop now qs (s_id sub) as 0 st = (r, st')"
    by (cases "grade_loop now qs (s_id sub) as 0 st")
  have "\<not> (\<exists>t. r = Inr t)"
    using grade_loop_Inr [of now qs "s_id sub" as 0 st] g assms by auto
  then obtain qid where r: "r = Inl qid" by (cases r) auto
  then obtain a where a: "find (\<lambda>a. \<not> known_question qs a) as = Some a" "qid = questionId a"
    using grade_loop_Inl [of now qs "s_id sub" as 0 st qid] g by auto
  have st': "st' = st\<lparr> answers := answers st @ expected_rows now qs (s_id sub) (answers_id_seq st) as,
                 answers_id_seq := answers_id_seq st +
                    int (length (expected_rows now qs (s_id sub) (answers_id_seq st) as)) \<rparr>"
    using grade_loop_frame [OF g] grade_loop_answers [of now qs "s_id sub" as 0 st]
          grade_loop_seq [of now qs "s_id sub" as 0 st] g
    by (cases st, cases st') simp
  show ?thesis using a r g st' by (simp add: grade_and_finish_def)
qed

lemma grade_and_finish_known:
  assumes "\<forall>a \<in> set as. known_question qs a"
  shows "fst (grade_and_finish now qs as sub st) =
           \<lparr> status = 200,
             body = SubmissionJson
               (case filter (\<lambda>s. s_id s = s_id sub) (submissions st) of
                  [] \<Rightarrow> None
                | s # _ \<Rightarrow> Some (s\<lparr> s_endTime := Some now, s_score := Some (expected_score qs as),
                                     s_status := completed \<rparr>)) \<rparr> \<and>
         snd (grade_and_finish now qs as sub st) =
             st\<lparr> answers := answers st @ expected_rows now qs (s_id sub) (answers_id_seq st) as,
                 answers_id_seq := answers_id_seq st +
                    int (length (expected_rows now qs (s_id sub) (answers_id_seq st) as)),
                 submissions := map (\<lambda>s. if s_id s = s_id sub
                      then s\<lparr> s_endTime := Some now, s_score := Some (expected_score qs as),
                              s_status := completed \<rparr> else s) (submissions st) \<rparr>"
proof -
  obtain r st' where g: "grade_loop now qs (s_id sub) as 0 st = (r, st')"
    by (cases "grade_loop now qs (s_id sub) as 0 st")
  have r: "r = Inr (expected_score qs as)"
    using grade_loop_Inr [of now qs "s_id sub" as 0 st "expected_score qs as"] g assms by simp
  have st': "st' = st\<lparr> answers := answers st @ expected_rows now qs (s_id sub) (answers_id_seq st) as,
                 answers_id_seq := answers_id_seq st +
                    int (length (expected_rows now qs (s_id sub) (answers_id_seq st) as)) \<rparr>"
    using grade_loop_frame [OF g] grade_loop_answers [of now qs "s_id sub" as 0 st]
          grade_loop_seq [of now qs "s_id sub" as 0 st] g
    by (cases st, cases st') simp
  show ?thesis using r g st'
    by (simp add: grade_and_finish_def updateSubmission_def apply_finish_patch
             split: list.splits)
qed

section \<open>Properties of the submit route\<close>

lemma submit_exam_split:
  "submit_exam now st req =
     (case submit_rejection st req of
        Some r \<Rightarrow> (r, st)
      | None \<Rightarrow>
          (case req_answers req of
             NotArray \<Rightarrow> (\<lparr> status = 400, body = Message ''No answers provided'' \<rparr>, st)
           | Array as \<Rightarrow>
               grade_and_finish now (getQuestionsByExam st (req_examId req)) as
                 (graded_submission now st req) (store_at_grading now st req)))"
proof (cases "req_user req")
  case None
  then show ?thesis by (simp add: submit_exam_def submit_rejection_def)
next
  case u: (Some u)
  show ?thesis
  proof (cases "u_role u = student")
    case False
    then show ?thesis using u by (simp add: submit_exam_def submit_rejection_def)
  next
    case stu: True
    show ?thesis
    proof (cases "getExam st (req_examId req)")
      case None
      then show ?thesis using u stu by (simp add: submit_exam_def submit_rejection_def)
    next
      case ex: (Some ex)
      show ?thesis
      proof (cases "Some (e_class ex) = u_class u")
        case False
        then show ?thesis using u stu ex by (simp add: submit_exam_def submit_rejection_def)
      next
        case cls: True
        have ss: "studentSubmission_of st req =
                    find (\<lambda>s. s_userId s = u_id u) (getSubmissionsByExam st (req_examId req))"
          using u by (simp add: studentSubmission_of_def)
        show ?thesis
        proof (cases "studentSubmission_of st req")
          case None
          then show ?thesis using u stu ex cls ss
            by (cases "req_answers req")
               (simp_all add: submit_exam_def submit_rejection_def Let_def graded_submission_def
                  store_at_grading_def new_submission_def createSubmission_def)
        next
          case (Some sub)
          then show ?thesis using u stu ex cls ss
            by (cases "req_answers req")
               (simp_all add: submit_exam_def submit_rejection_def Let_def graded_submission_def
                  store_at_grading_def)
        qed
      qed
    qed
  qed
qed

lemma submit_exam_rejected:
  "submit_rejection st req = Some r \<Longrightarrow> submit_exam now st req = (r, st)"
  by (simp add: submit_exam_split)

lemma submit_rejection_None_answers:
  assumes "submit_rejection st req = None"
  shows "\<exists>as. req_answers req = Array as \<and> as \<noteq> []"
proof (cases "req_answers req")
  case NotArray
  then show ?thesis using assms
    by (simp add: submit_rejection_def split: option.splits if_splits)
next
  case (Array as)
  then show ?thesis using assms
    by (cases as) (simp_all add: submit_rejection_def split: option.splits if_splits)
qed


lemma submit_rejection_status:
  "submit_rejection st req = Some r \<Longrightarrow> status r \<in> {400, 403, 404}"
  by (auto simp: submit_rejection_def split: option.splits if_splits)

lemma find_Some_set: "find P xs = Some x \<Longrightarrow> x \<in> set xs \<and> P x"
  by (induction xs) (auto split: if_splits)

lemma studentSubmission_of_stored:
  "studentSubmission_of st req = Some sub \<Longrightarrow> sub \<in> set (submissions st)"
  by (auto simp: studentSubmission_of_def getSubmissionsByExam_def
           split: option.splits dest!: find_Some_set)






lemma grade_and_finish_answers:
  "answers (snd (grade_and_finish now qs as sub st)) =
     answers st @ expected_rows now qs (s_id sub) (answers_id_seq st) as"
proof (cases "\<forall>a \<in> set as. known_question qs a")
  case True
  from grade_and_finish_known [OF True, of now sub st] show ?thesis by simp
next
  case False
  from grade_and_finish_unknown [OF False, of now sub st] show ?thesis by auto
qed

lemma expected_rows_questionId:
  "map a_questionId (expected_rows now qs sid n as) = map questionId (takeWhile (known_question qs) as)"
  by (induction as arbitrary: n) auto

lemma expected_rows_answer:
  "map a_answer (expected_rows now qs sid n as) = map answer (takeWhile (known_question qs) as)"
  by (induction as arbitrary: n) auto


lemma expected_rows_isCorrect:
  "r \<in> set (expected_rows now qs sid n as) \<Longrightarrow>
     \<exists>q. find (\<lambda>q. q_id q = a_questionId r) qs = Some q \<and>
         a_isCorrect r = Some (a_answer r = Some (q_correctAnswer q))"
  by (induction as arbitrary: n)
     (auto simp: known_question_def is_correct_entry_def split: if_splits option.splits)

lemma takeWhile_as_take: "takeWhile P xs = take (length (takeWhile P xs)) xs"
  by (induction xs) auto

lemma submit_exam_answers:
  "answers (snd (submit_exam now st req)) =
     answers st @
       (case submit_rejection st req of
          Some r \<Rightarrow> []
        | None \<Rightarrow>
            (case req_answers req of
               NotArray \<Rightarrow> []
             | Array as \<Rightarrow>
                 expected_rows now (getQuestionsByExam st (req_examId req))
                   (s_id (graded_submission now st req)) (answers_id_seq st) as))"
proof (cases "submit_rejection st req")
  case (Some r)
  then show ?thesis by (simp add: submit_exam_split)
next
  case None
  have "answers (store_at_grading now st req) = answers st"
    "answers_id_seq (store_at_grading now st req) = answers_id_seq st"
    by (simp_all add: store_at_grading_def split: option.splits)
  then show ?thesis using None
    by (cases "req_answers req") (simp_all add: submit_exam_split grade_and_finish_answers)
qed

text \<open>
  C2. The answer rows a request persists are appended to the table, one per graded
  entry of the submitted list in list order, each carrying that entry's question id and
  answer; and for every such row the \<open>isCorrect\<close> flag is set, and is true exactly when
  the submitted answer is a string equal to the stored \<open>correctAnswer\<close> of the question
  with the row's question id.
\<close>

theorem answer_rows_flag_correctness:
  assumes "submit_exam now st req = (resp, st')"
  shows "\<exists>rows. answers st' = answers st @ rows \<and>
           (rows = [] \<or>
              (\<exists>as. req_answers req = Array as \<and> length rows \<le> length as \<and>
                 map a_questionId rows = map questionId (take (length rows) as) \<and>
                 map a_answer rows = map answer (take (length rows) as))) \<and>
           (\<forall>r \<in> set rows.
              \<exists>q. find (\<lambda>q. q_id q = a_questionId r) (getQuestionsByExam st (req_examId req)) = Some q \<and>
                  a_isCorrect r = Some (a_answer r = Some (q_correctAnswer q)))"
proof -
  let ?qs = "getQuestionsByExam st (req_examId req)"
  have st': "st' = snd (submit_exam now st req)" using assms by simp
  show ?thesis
  proof (cases "submit_rejection st req")
    case (Some r)
    then have "answers st' = answers st @ []"
      unfolding st' submit_exam_answers by simp
    then show ?thesis by (intro exI [of _ "[]"]) simp
  next
    case None
    then obtain as where as: "req_answers req = Array as"
      using submit_rejection_None_answers by blast
    let ?rows = "expected_rows now ?qs (s_id (graded_submission now st req)) (answers_id_seq st) as"
    have a: "answers st' = answers st @ ?rows"
      unfolding st' submit_exam_answers using None as by simp
    have len: "length ?rows = length (takeWhile (known_question ?qs) as)"
      using expected_rows_questionId [of now ?qs "s_id (graded_submission now st req)" "answers_id_seq st" as]
      by (metis length_map)
    have le: "length ?rows \<le> length as"
      unfolding len by (rule length_takeWhile_le)
    have q: "map a_questionId ?rows = map questionId (take (length ?rows) as)"
      unfolding len expected_rows_questionId using takeWhile_as_take [of "known_question ?qs" as] by simp
    have an: "map a_answer ?rows = map answer (take (length ?rows) as)"
      unfolding len expected_rows_answer using takeWhile_as_take [of "known_question ?qs" as] by simp
    have c: "\<forall>r \<in> set ?rows.
              \<exists>q. find (\<lambda>q. q_id q = a_questionId r) ?qs = Some q \<and>
                  a_isCorrect r = Some (a_answer r = Some (q_correctAnswer q))"
      using expected_rows_isCorrect by blast
    show ?thesis
      apply (rule exI [of _ ?rows])
      using a as le q an c by blast
  qed
qed

theorem answer_rows_flag_correctness_witness:
  "\<exists>rows. answers (snd (submit_exam 1000 demo_store demo_request)) = answers demo_store @ rows \<and>
     map a_isCorrect rows = [Some True, Some True, Some False] \<and>
     (\<forall>r \<in> set rows.
        \<exists>q. find (\<lambda>q. q_id q = a_questionId r) (getQuestionsByExam demo_store (req_examId demo_request)) = Some q \<and>
            a_isCorrect r = Some (a_answer r = Some (q_correctAnswer q)))"
proof -
  have run: "submit_exam 1000 demo_store demo_request =
               (fst (submit_exam 1000 demo_store demo_request),
                snd (submit_exam 1000 demo_store demo_request))"
    by simp
  have ev: "map a_isCorrect (answers (snd (submit_exam 1000 demo_store demo_request))) =
              [Some True, Some True, Some False]"
    by (simp add: submit_defs storage_defs demo_defs)
  have e: "answers demo_store = []" by (simp add: demo_store_def)
  from answer_rows_flag_correctness [OF run] ev e show ?thesis by auto
qed



lemma grade_and_finish_submissions:
  "submissions (snd (grade_and_finish now qs as sub st)) =
     (if \<forall>a \<in> set as. known_question qs a
      then map (\<lambda>s. if s_id s = s_id sub
                     then s\<lparr> s_endTime := Some now, s_score := Some (expected_score qs as),
                             s_status := completed \<rparr>
                     else s) (submissions st)
      else submissions st)"
proof (cases "\<forall>a \<in> set as. known_question qs a")
  case True
  from grade_and_finish_known [OF True, of now sub st] True show ?thesis by simp
next
  case False
  from grade_and_finish_unknown [OF False, of now sub st] False show ?thesis by auto
qed




text \<open>
  C9. When a request that reuses the student's existing submission succeeds, the
  submissions table changes only in the rows with that submission's id, and there only
  in \<open>endTime\<close>, \<open>score\<close> and \<open>status\<close>: \<open>id\<close>, \<open>examId\<close>, \<open>userId\<close>, \<open>startTime\<close> and
  \<open>createdAt\<close> of every row are as before.
\<close>

theorem finalize_reused_submission_frame:
  assumes run: "submit_exam now st req = (resp, st')"
    and ok: "status resp = 200"
    and u: "req_user req = Some u"
    and found: "find (\<lambda>s. s_userId s = u_id u) (getSubmissionsByExam st (req_examId req)) = Some sub"
  shows "sub \<in> set (submissions st) \<and>
         (\<exists>score.
            submissions st' =
              map (\<lambda>s. if s_id s = s_id sub
                        then s\<lparr> s_endTime := Some now, s_score := Some score, s_status := completed \<rparr>
                        else s) (submissions st)) \<and>
         length (submissions st') = length (submissions st) \<and>
         (\<forall>i < length (submissions st).
            s_id (submissions st' ! i) = s_id (submissions st ! i) \<and>
            s_examId (submissions st' ! i) = s_examId (submissions st ! i) \<and>
            s_userId (submissions st' ! i) = s_userId (submissions st ! i) \<and>
            s_startTime (submissions st' ! i) = s_startTime (submissions st ! i) \<and>
            s_createdAt (submissions st' ! i) = s_createdAt (submissions st ! i))"
proof -
  let ?qs = "getQuestionsByExam st (req_examId req)"
  have ss: "studentSubmission_of st req = Some sub"
    using u found by (simp add: studentSubmission_of_def)
  have rej: "submit_rejection st req = None"
  proof (cases "submit_rejection st req")
    case (Some r)
    then show ?thesis
      using submit_exam_rejected [OF Some, of now] submit_rejection_status [OF Some] run ok by auto
  qed simp
  then obtain as where as: "req_answers req = Array as"
    using submit_rejection_None_answers by blast
  have g: "graded_submission now st req = sub" "store_at_grading now st req = st"
    using ss by (simp_all add: graded_submission_def store_at_grading_def)
  have eq: "grade_and_finish now ?qs as sub st = (resp, st')"
    using run rej as g by (simp add: submit_exam_split)
  have known: "\<forall>a \<in> set as. known_question ?qs a"
  proof (rule ccontr)
    assume "\<not> ?thesis"
    from grade_and_finish_unknown [OF this, of now sub st] eq ok show False by auto
  qed
  have subs: "submissions st' =
      map (\<lambda>s. if s_id s = s_id sub
                then s\<lparr> s_endTime := Some now, s_score := Some (expected_score ?qs as),
                        s_status := completed \<rparr>
                else s) (submissions st)"
    using grade_and_finish_submissions [of now ?qs as sub st] eq known by simp
  have mem: "sub \<in> set (submissions st)"
    using studentSubmission_of_stored [OF ss] .
  have fr: "\<forall>i < length (submissions st).
            s_id (submissions st' ! i) = s_id (submissions st ! i) \<and>
            s_examId (submissions st' ! i) = s_examId (submissions st ! i) \<and>
            s_userId (submissions st' ! i) = s_userId (submissions st ! i) \<and>
            s_startTime (submissions st' ! i) = s_startTime (submissions st ! i) \<and>
            s_createdAt (submissions st' ! i) = s_createdAt (submissions st ! i)"
    unfolding subs by simp
  have len: "length (submissions st') = length (submissions st)"
    unfolding subs by simp
  show ?thesis using mem subs fr len by blast
qed

theorem finalize_reused_submission_frame_witness:
  "status (fst (submit_exam 1000 resumed_store demo_request)) = 200 \<and>
   find (\<lambda>s. s_userId s = u_id demo_student)
     (getSubmissionsByExam resumed_store (req_examId demo_request)) =
       Some (demo_submission 2 2 in_progress None) \<and>
   (\<exists>score.
      submissions (snd (submit_exam 1000 resumed_store demo_request)) =
        map (\<lambda>s. if s_id s = s_id (demo_submission 2 2 in_progress None)
                  then s\<lparr> s_endTime := Some 1000, s_score := Some score, s_status := completed \<rparr>
                  else s) (submissions resumed_store))"
proof -
  have run: "submit_exam 1000 resumed_store demo_request =
               (fst (submit_exam 1000 resumed_store demo_request),
                snd (submit_exam 1000 resumed_store demo_request))"
    by simp
  have ok: "status (fst (submit_exam 1000 resumed_store demo_request)) = 200"
    by (simp add: submit_defs storage_defs demo_defs demo2_defs)
  have u: "req_user demo_request = Some demo_student"
    by (simp add: demo_request_def)
  have found: "find (\<lambda>s. s_userId s = u_id demo_student)
     (getSubmissionsByExam resumed_store (req_examId demo_request)) =
       Some (demo_submission 2 2 in_progress None)"
    by (simp add: storage_defs demo_defs demo2_defs)
  from finalize_reused_submission_frame [OF run ok u found] ok found show ?thesis by blast
qed







text \<open>
  C3. The route looks at the first submission of the student that the exam's
  submissions hold, and rejects the request when that one is completed.
\<close>

lemma completed_submission_found_rejected:
  assumes "req_user req = Some u" and "u_role u = student"
    and "getExam st (req_examId req) = Some ex" and "Some (e_class ex) = u_class u"
    and "find (\<lambda>s. s_userId s = u_id u) (getSubmissionsByExam st (req_examId req)) = Some sub"
    and "s_status sub = completed"
  shows "submit_exam now st req = (\<lparr> status = 400, body = Message ''Exam already submitted'' \<rparr>, st)"
  using assms by (simp add: submit_exam_def)

text \<open>
  C3 at a store in which the student has two submissions for the exam, the first in
  progress and the second completed (two racing first requests create one row each):
  the route finds the one in progress, grades the new request and answers 200, and the
  student then has two completed submissions.
\<close>

theorem resubmission_after_race_accepted:
  "studentSubmission_of raced_store demo_request = Some (demo_submission 1 2 in_progress None) \<and>
   demo_submission 2 2 completed (Some 3) \<in> set (getSubmissionsByExam raced_store 1) \<and>
   status (fst (submit_exam 1000 raced_store demo_request)) = 200 \<and>
   map s_status (submissions (snd (submit_exam 1000 raced_store demo_request))) =
     [completed, completed] \<and>
   length (answers (snd (submit_exam 1000 raced_store demo_request))) = 3"
  by (simp add: submit_defs storage_defs spec_defs demo_defs demo2_defs)

end
